theory Spec2Isabelle
  imports Main "HOL-Library.Word" "HOL-Library.Sublist"
begin

section \<open>Data model of the lndc listener\<close>

text \<open>
  The development follows \<^verbatim>\<open>lndc/listener.go\<close>. Go values that may be \<^verbatim>\<open>nil\<close>
  (an \<^verbatim>\<open>error\<close>, a \<^verbatim>\<open>*Conn\<close>) are options, \<open>None\<close> being \<^verbatim>\<open>nil\<close>.
\<close>

type_synonym byte = "8 word"

text \<open>The private key \<^verbatim>\<open>localStatic\<close> is only passed on; it is an opaque number here.\<close>

type_synonym key = nat

datatype error = EOF | ErrUnexpectedEOF | Err string

definition errors_New :: "string \<Rightarrow> error" where
  "errors_New msg = Err msg"

text \<open>
  \<^verbatim>\<open>quit chan struct{}\<close> never carries a value: all that is observable is whether it has
  been closed. Closing a closed channel panics in Go; \<open>None\<close> is that panic.
\<close>

datatype chan_state = Open | Closed

definition close_chan :: "chan_state \<Rightarrow> chan_state option" where
  "close_chan q = (case q of Open \<Rightarrow> Some Closed | Closed \<Rightarrow> None)"

text \<open>
  The argument of \<^verbatim>\<open>SetReadDeadline\<close>: \<^verbatim>\<open>time.Time{}\<close> (no deadline) or
  \<^verbatim>\<open>time.Now().Add(handshakeReadTimeout)\<close>.
\<close>

datatype deadline = ZeroTime | NowAddHandshakeReadTimeout

text \<open>
  The accepted \<^verbatim>\<open>net.Conn\<close>, as far as \<^verbatim>\<open>doHandshake\<close> uses it. The peer is part of
  the connection: \<open>rx\<close> are the bytes it will still send and \<open>rx_end\<close> is the error a
  read meets once they are used up (\<open>EOF\<close>, a deadline timeout, a reset); \<open>wr_err\<close>
  is the error a write meets, if any.
\<close>

record rawconn =
  rx :: "byte list"
  rx_end :: error
  tx :: "byte list"
  wr_err :: "error option"
  read_deadline :: deadline
  closed :: bool

definition SetReadDeadline :: "deadline \<Rightarrow> rawconn \<Rightarrow> rawconn" where
  "SetReadDeadline d c = c\<lparr>read_deadline := d\<rparr>"

text \<open>
  \<^verbatim>\<open>io.ReadFull(conn, buf)\<close> with \<^verbatim>\<open>len(buf) = n\<close>: the buffer and the error. It fills
  the buffer or fails; the error is \<^verbatim>\<open>io.ErrUnexpectedEOF\<close> when the stream ends after
  some but not all bytes. The buffer starts zeroed.
\<close>

definition ReadFull :: "rawconn \<Rightarrow> nat \<Rightarrow> (byte list \<times> error option) \<times> rawconn" where
  "ReadFull c n =
     (if n \<le> length (rx c) then ((take n (rx c), None), c\<lparr>rx := drop n (rx c)\<rparr>)
      else ((rx c @ replicate (n - length (rx c)) 0,
             Some (if rx c \<noteq> [] \<and> rx_end c = EOF then ErrUnexpectedEOF else rx_end c)),
            c\<lparr>rx := []\<rparr>))"

definition Write :: "rawconn \<Rightarrow> byte list \<Rightarrow> error option \<times> rawconn" where
  "Write c bs = (case wr_err c of Some e \<Rightarrow> (Some e, c) | None \<Rightarrow> (None, c\<lparr>tx := tx c @ bs\<rparr>))"

definition conn_Close :: "rawconn \<Rightarrow> rawconn" where
  "conn_Close c = c\<lparr>closed := True\<rparr>"

text \<open>
  The noise machine (\<^verbatim>\<open>Machine\<close>, \<^verbatim>\<open>NewNoiseMachine\<close>, \<^verbatim>\<open>RecvActOne\<close>, \<^verbatim>\<open>GenActTwo\<close>,
  \<^verbatim>\<open>RecvActThree\<close>) and the sizes \<^verbatim>\<open>ActOneSize\<close>, \<^verbatim>\<open>ActThreeSize\<close> are declared in another
  file of the package. The listener uses them as a black box, so they are a parameter:
  any state type \<open>'n\<close> with these four operations.
\<close>

record 'n machine =
  NewNoiseMachine :: "bool \<Rightarrow> key \<Rightarrow> 'n"
  RecvActOne :: "'n \<Rightarrow> byte list \<Rightarrow> error option \<times> 'n"
  GenActTwo :: "'n \<Rightarrow> (byte list \<times> error option) \<times> 'n"
  RecvActThree :: "'n \<Rightarrow> byte list \<Rightarrow> error option \<times> 'n"
  ActOneSize :: nat
  ActThreeSize :: nat

text \<open>\<^verbatim>\<open>Conn\<close>: the raw connection and its noise machine.\<close>

datatype 'n Conn = Conn (Conn_conn: rawconn) (Conn_noise: 'n)

text \<open>\<^verbatim>\<open>maybeConn\<close>: both fields can be \<^verbatim>\<open>nil\<close> as far as the type goes.\<close>

datatype 'n maybeConn = maybeConn (conn: "'n Conn option") (err: "error option")


definition rejectConn_msg :: "error option \<Rightarrow> 'n maybeConn" where
  "rejectConn_msg e = maybeConn None e"

definition acceptConn_msg :: "'n Conn option \<Rightarrow> 'n maybeConn" where
  "acceptConn_msg c = maybeConn c None"

section \<open>The handshake task: \<^verbatim>\<open>doHandshake\<close>\<close>

text \<open>
  What a task does, in order. A call that can fail is logged with what it was given and
  what it returned: \<open>EvReadFull n buf err\<close> is \<^verbatim>\<open>io.ReadFull\<close> on a buffer of \<open>n\<close> bytes,
  leaving \<open>buf\<close> in it and returning \<open>err\<close>. \<open>EvRejectConn\<close> and \<open>EvAcceptConn\<close> are the calls of
  \<^verbatim>\<open>rejectConn\<close> and \<^verbatim>\<open>acceptConn\<close>; \<open>EvSent\<close> and \<open>EvQuit\<close> are the two cases of the
  \<^verbatim>\<open>select\<close> inside them; \<open>EvRelease\<close> is the deferred \<^verbatim>\<open>l.handshakeSema <- struct{}{}\<close>.
\<close>

datatype 'n event =
    EvNewNoiseMachine
  | EvSetReadDeadline deadline
  | EvReadFull nat "byte list" "error option"
  | EvRecvActOne "byte list" "error option"
  | EvGenActTwo "byte list" "error option"
  | EvWrite "byte list" "error option"
  | EvRecvActThree "byte list" "error option"
  | EvClose
  | EvRejectConn "error option"
  | EvAcceptConn "'n Conn option"
  | EvSent "'n maybeConn"
  | EvQuit
  | EvRelease

text \<open>
  Where a task can be observed by the other goroutines: before the \<^verbatim>\<open>select\<close> of line 99,
  before the \<^verbatim>\<open>select\<close> of line 143, inside the \<^verbatim>\<open>select\<close> of \<^verbatim>\<open>acceptConn\<close> or
  \<^verbatim>\<open>rejectConn\<close> (with the value it offers on \<^verbatim>\<open>l.conns\<close>), returned with the deferred
  function of line 97 still to run, and gone. Between two of these points a task touches
  only its own connection and noise machine.
\<close>

datatype 'n pc = PreCheck | ReCheck | Deliver "'n maybeConn" | Deferred | Finished

record 'n task =
  pc :: "'n pc"
  t_conn :: rawconn
  t_noise :: "'n option"
  trace :: "'n event list"

text \<open>\<^verbatim>\<open>go l.doHandshake(conn)\<close>: \<^verbatim>\<open>lndcConn\<close> does not exist yet.\<close>

definition spawn :: "rawconn \<Rightarrow> 'n task" where
  "spawn c = \<lparr>pc = PreCheck, t_conn = c, t_noise = None, trace = []\<rparr>"

definition rejectConn :: "error option \<Rightarrow> 'n task \<Rightarrow> 'n task" where
  "rejectConn e t = t\<lparr>pc := Deliver (rejectConn_msg e), trace := trace t @ [EvRejectConn e]\<rparr>"

definition acceptConn :: "'n Conn option \<Rightarrow> 'n task \<Rightarrow> 'n task" where
  "acceptConn c t = t\<lparr>pc := Deliver (acceptConn_msg c), trace := trace t @ [EvAcceptConn c]\<rparr>"

text \<open>
  The block \<^verbatim>\<open>lndcConn.conn.Close(); l.rejectConn(err); return\<close> of every failure, for a task
  whose connection is \<open>c\<close>, whose noise machine is \<open>n\<close> and which has done \<open>tr\<close> so far.
\<close>

definition close_reject :: "error option \<Rightarrow> rawconn \<Rightarrow> 'n \<Rightarrow> 'n event list \<Rightarrow> 'n task" where
  "close_reject e c n tr =
     rejectConn e \<lparr>pc = PreCheck, t_conn = conn_Close c, t_noise = Some n, trace = tr @ [EvClose]\<rparr>"

text \<open>
  Lines 99 to 141, with \<open>q\<close> the state of \<^verbatim>\<open>l.quit\<close> at the \<^verbatim>\<open>select\<close> of line 99. The
  connection goes from \<open>c0\<close> to \<open>c3\<close>, the noise machine from \<open>n0\<close> to \<open>n2\<close>, and the
  trace grows with each call.
\<close>

definition acts_one_two :: "'n machine \<Rightarrow> key \<Rightarrow> chan_state \<Rightarrow> 'n task \<Rightarrow> 'n task" where
  "acts_one_two m k q t =
     (if q = Closed then t\<lparr>pc := Deferred\<rparr>
      else
        let n0 = NewNoiseMachine m False k;
            c1 = SetReadDeadline NowAddHandshakeReadTimeout (t_conn t);
            ((actOne, e1), c2) = ReadFull c1 (ActOneSize m);
            tr1 = trace t @ [EvNewNoiseMachine, EvSetReadDeadline NowAddHandshakeReadTimeout,
                             EvReadFull (ActOneSize m) actOne e1]
        in if e1 \<noteq> None then close_reject e1 c2 n0 tr1
        else
          let (e2, n1) = RecvActOne m n0 actOne;
              tr2 = tr1 @ [EvRecvActOne actOne e2]
          in if e2 \<noteq> None then close_reject e2 c2 n1 tr2
          else
            let ((actTwo, e3), n2) = GenActTwo m n1;
                tr3 = tr2 @ [EvGenActTwo actTwo e3]
            in if e3 \<noteq> None then close_reject e3 c2 n2 tr3
            else
              let (e4, c3) = Write c2 actTwo;
                  tr4 = tr3 @ [EvWrite actTwo e4]
              in if e4 \<noteq> None then close_reject e4 c3 n2 tr4
              else \<lparr>pc = ReCheck, t_conn = c3, t_noise = Some n2, trace = tr4\<rparr>)"

text \<open>
  Lines 143 to 173, with \<open>q\<close> the state of \<^verbatim>\<open>l.quit\<close> at the \<^verbatim>\<open>select\<close> of line 143.
  \<^verbatim>\<open>lndcConn\<close> exists since line 105; a task without one stays where it is.
\<close>

definition act_three :: "'n machine \<Rightarrow> chan_state \<Rightarrow> 'n task \<Rightarrow> 'n task" where
  "act_three m q t =
     (if q = Closed then t\<lparr>pc := Deferred\<rparr>
      else case t_noise t of
        None \<Rightarrow> t
      | Some n2 \<Rightarrow>
        let c4 = SetReadDeadline NowAddHandshakeReadTimeout (t_conn t);
            ((actThree, e5), c5) = ReadFull c4 (ActThreeSize m);
            tr5 = trace t @ [EvSetReadDeadline NowAddHandshakeReadTimeout,
                             EvReadFull (ActThreeSize m) actThree e5]
        in if e5 \<noteq> None then close_reject e5 c5 n2 tr5
        else
          let (e6, n3) = RecvActThree m n2 actThree;
              tr6 = tr5 @ [EvRecvActThree actThree e6]
          in if e6 \<noteq> None then close_reject e6 c5 n3 tr6
          else
            let c6 = SetReadDeadline ZeroTime c5
            in acceptConn (Some (Conn c6 n3))
                 \<lparr>pc = ReCheck, t_conn = c6, t_noise = Some n3,
                  trace = tr6 @ [EvSetReadDeadline ZeroTime]\<rparr>)"

text \<open>
  The \<^verbatim>\<open>select\<close> of \<^verbatim>\<open>acceptConn\<close> and \<^verbatim>\<open>rejectConn\<close>: the send on \<^verbatim>\<open>l.conns\<close> is taken by a
  receiver, or \<^verbatim>\<open>l.quit\<close> is closed. Either way the function returns and so does
  \<^verbatim>\<open>doHandshake\<close>.
\<close>

datatype select_case = CaseSend | CaseQuit

definition select_done :: "select_case \<Rightarrow> 'n task \<Rightarrow> 'n task" where
  "select_done sc t =
     (case pc t of
        Deliver mc \<Rightarrow>
          t\<lparr>pc := Deferred,
            trace := trace t @ [case sc of CaseSend \<Rightarrow> EvSent mc | CaseQuit \<Rightarrow> EvQuit]\<rparr>
      | _ \<Rightarrow> t)"

text \<open>The deferred function of line 97, as far as the task goes (the pool comes later).\<close>

definition run_deferred :: "'n task \<Rightarrow> 'n task" where
  "run_deferred t =
     (case pc t of Deferred \<Rightarrow> t\<lparr>pc := Finished, trace := trace t @ [EvRelease]\<rparr> | _ \<Rightarrow> t)"

text \<open>One move of a task between two observation points.\<close>

definition task_run :: "'n machine \<Rightarrow> key \<Rightarrow> chan_state \<Rightarrow> 'n task \<Rightarrow> 'n task" where
  "task_run m k q t =
     (case pc t of PreCheck \<Rightarrow> acts_one_two m k q t | ReCheck \<Rightarrow> act_three m q t | _ \<Rightarrow> t)"

text \<open>
  A whole call of \<^verbatim>\<open>doHandshake\<close> on its own. What the rest of the program decides is
  given: the state of \<^verbatim>\<open>l.quit\<close> at the two checks, and which case the final \<^verbatim>\<open>select\<close>
  takes, \<open>None\<close> when neither case ever becomes ready (no receiver, no close): the task
  then stays blocked in the \<^verbatim>\<open>select\<close>.
\<close>

record schedule =
  quit_at_precheck :: chan_state
  quit_at_recheck :: chan_state
  delivery :: "select_case option"

text \<open>
  The end of a call: the \<^verbatim>\<open>select\<close> of \<^verbatim>\<open>acceptConn\<close> or \<^verbatim>\<open>rejectConn\<close> if the task is in
  one and the \<^verbatim>\<open>select\<close> gets ready, then the deferred function.
\<close>

definition finish :: "select_case option \<Rightarrow> 'n task \<Rightarrow> 'n task" where
  "finish d t = run_deferred (case d of None \<Rightarrow> t | Some sc \<Rightarrow> select_done sc t)"

definition doHandshake :: "'n machine \<Rightarrow> key \<Rightarrow> schedule \<Rightarrow> rawconn \<Rightarrow> 'n task" where
  "doHandshake m k sch c =
     finish (delivery sch)
       (task_run m k (quit_at_recheck sch) (task_run m k (quit_at_precheck sch) (spawn c)))"

section \<open>The listener and its goroutines\<close>

definition defaultHandshakes :: nat where
  "defaultHandshakes = 1000"

text \<open>
  Where the goroutine of \<^verbatim>\<open>listen\<close> can be observed: in the \<^verbatim>\<open>select\<close> of line 76, in
  \<^verbatim>\<open>l.tcp.Accept()\<close> (line 82), in the \<^verbatim>\<open>select\<close> of \<^verbatim>\<open>rejectConn\<close> (line 84, with the
  error it reports), before the send of line 85, and returned (line 79).
\<close>

datatype loop_pc = LSelect | LAccept | LReject "error option" | LRelease | LReturned

text \<open>The \<^verbatim>\<open>select\<close> of \<^verbatim>\<open>Accept\<close>: a value received from \<^verbatim>\<open>l.conns\<close>, or \<^verbatim>\<open>l.quit\<close> closed.\<close>

datatype 'n recv_case = CaseRecv "'n maybeConn" | CaseClosed

definition Accept :: "'n recv_case \<Rightarrow> 'n Conn option \<times> error option" where
  "Accept sc =
     (case sc of
        CaseRecv result \<Rightarrow> (conn result, err result)
      | CaseClosed \<Rightarrow> (None, Some (errors_New ''lndc connection closed'')))"

text \<open>A call of \<^verbatim>\<open>Accept\<close>: blocked in its \<^verbatim>\<open>select\<close>, or returned with its two results.\<close>

datatype 'n caller = Waiting | Returned "'n Conn option \<times> error option"

text \<open>
  The \<^verbatim>\<open>Listener\<close> and the goroutines working on it. \<open>handshakeSema\<close> is the number of
  values in the buffered channel and \<open>sema_cap\<close> its capacity; \<^verbatim>\<open>conns\<close> is unbuffered and
  holds nothing between two steps. The raw \<^verbatim>\<open>net.TCPListener\<close> is of any type \<open>'t\<close>.
\<close>

record ('n, 't) listener =
  localStatic :: key
  tcp :: 't
  handshakeSema :: nat
  sema_cap :: nat
  quit :: chan_state
  loop :: loop_pc
  tasks :: "'n task list"
  callers :: "'n caller list"

text \<open>The loop of lines 60 to 62: no send blocks, the buffer has room for all of them.\<close>

function fill_sema :: "nat \<Rightarrow> nat \<Rightarrow> nat" where
  "fill_sema i len = (if i < defaultHandshakes then fill_sema (i + 1) (len + 1) else len)"
  by pat_completeness auto
termination
  by (relation "measure (\<lambda>(i, len). defaultHandshakes - i)") auto

text \<open>
  \<^verbatim>\<open>NewListener\<close>, given what \<^verbatim>\<open>net.ResolveTCPAddr\<close> and \<^verbatim>\<open>net.ListenTCP\<close> return (an
  error, or the raw listener). The goroutine of \<^verbatim>\<open>listen\<close> starts in its \<^verbatim>\<open>select\<close>.
\<close>

definition NewListener ::
  "key \<Rightarrow> error option \<Rightarrow> error + 't \<Rightarrow> ('n, 't) listener option \<times> error option" where
  "NewListener k resolve_err listen_res =
     (if resolve_err \<noteq> None then (None, resolve_err)
      else case listen_res of
        Inl e \<Rightarrow> (None, Some e)
      | Inr t \<Rightarrow>
          (Some \<lparr>localStatic = k, tcp = t, handshakeSema = fill_sema 0 0,
                 sema_cap = defaultHandshakes, quit = Open, loop = LSelect,
                 tasks = [], callers = []\<rparr>, None))"

text \<open>
  \<^verbatim>\<open>Close\<close>, given the \<^verbatim>\<open>Close\<close> of the raw listener. \<open>None\<close> is a panic. The \<^verbatim>\<open>select\<close>
  takes \<^verbatim>\<open>case <-l.quit\<close> exactly when the channel is closed, and the default otherwise.
\<close>

definition Close ::
  "('t \<Rightarrow> error option \<times> 't) \<Rightarrow> ('n, 't) listener \<Rightarrow> (error option \<times> ('n, 't) listener) option" where
  "Close tcp_Close l =
     (case (case quit l of
              Closed \<Rightarrow> Some l
            | Open \<Rightarrow> (case close_chan (quit l) of None \<Rightarrow> None | Some q \<Rightarrow> Some (l\<lparr>quit := q\<rparr>))) of
        None \<Rightarrow> None
      | Some l1 \<Rightarrow> (let (e, t) = tcp_Close (tcp l1) in Some (e, l1\<lparr>tcp := t\<rparr>)))"

text \<open>
  The steps of the program. Each is one goroutine moving from one observation point to
  the next; \<open>fire\<close> gives the state after the step, or \<open>None\<close> when the step cannot be
  taken there (a blocked channel operation, a goroutine that is elsewhere).
  A send on \<^verbatim>\<open>l.conns\<close> and the receive in \<^verbatim>\<open>Accept\<close> are one step, the channel being
  unbuffered. What \<^verbatim>\<open>l.tcp.Accept()\<close> returns comes with the step. Calls of \<^verbatim>\<open>Close\<close> are
  taken one at a time.
\<close>

datatype action =
    LoopToken
  | LoopQuit
  | LoopAccept "rawconn option" "error option"
  | LoopSend nat
  | LoopAbandon
  | LoopRelease
  | TaskRun nat
  | TaskSend nat nat
  | TaskAbandon nat
  | TaskRelease nat
  | CallAccept
  | AcceptClosed nat
  | CallClose

fun fire ::
  "'n machine \<Rightarrow> ('t \<Rightarrow> error option \<times> 't) \<Rightarrow> action \<Rightarrow> ('n, 't) listener \<Rightarrow> ('n, 't) listener option" where
  "fire m tc LoopToken l =
     (if loop l = LSelect \<and> 0 < handshakeSema l
      then Some (l\<lparr>handshakeSema := handshakeSema l - 1, loop := LAccept\<rparr>) else None)"
| "fire m tc LoopQuit l =
     (if loop l = LSelect \<and> quit l = Closed then Some (l\<lparr>loop := LReturned\<rparr>) else None)"
| "fire m tc (LoopAccept c e) l =
     (if loop l \<noteq> LAccept then None
      else if e \<noteq> None then Some (l\<lparr>loop := LReject e\<rparr>)
      else case c of
        None \<Rightarrow> None
      | Some rc \<Rightarrow> Some (l\<lparr>tasks := tasks l @ [spawn rc], loop := LSelect\<rparr>))"
| "fire m tc (LoopSend j) l =
     (case loop l of
        LReject e \<Rightarrow>
          if j < length (callers l) \<and> callers l ! j = Waiting
          then Some (l\<lparr>callers := (callers l)[j := Returned (Accept (CaseRecv (rejectConn_msg e)))],
                       loop := LRelease\<rparr>)
          else None
      | _ \<Rightarrow> None)"
| "fire m tc LoopAbandon l =
     (case loop l of
        LReject e \<Rightarrow> if quit l = Closed then Some (l\<lparr>loop := LRelease\<rparr>) else None
      | _ \<Rightarrow> None)"
| "fire m tc LoopRelease l =
     (if loop l = LRelease \<and> handshakeSema l < sema_cap l
      then Some (l\<lparr>handshakeSema := handshakeSema l + 1, loop := LSelect\<rparr>) else None)"
| "fire m tc (TaskRun i) l =
     (if i < length (tasks l) \<and> (pc (tasks l ! i) = PreCheck \<or> pc (tasks l ! i) = ReCheck)
      then Some (l\<lparr>tasks := (tasks l)[i := task_run m (localStatic l) (quit l) (tasks l ! i)]\<rparr>)
      else None)"
| "fire m tc (TaskSend i j) l =
     (if i < length (tasks l) \<and> j < length (callers l) \<and> callers l ! j = Waiting
      then case pc (tasks l ! i) of
        Deliver mc \<Rightarrow>
          Some (l\<lparr>tasks := (tasks l)[i := select_done CaseSend (tasks l ! i)],
                  callers := (callers l)[j := Returned (Accept (CaseRecv mc))]\<rparr>)
      | _ \<Rightarrow> None
      else None)"
| "fire m tc (TaskAbandon i) l =
     (if i < length (tasks l) \<and> quit l = Closed
      then case pc (tasks l ! i) of
        Deliver mc \<Rightarrow> Some (l\<lparr>tasks := (tasks l)[i := select_done CaseQuit (tasks l ! i)]\<rparr>)
      | _ \<Rightarrow> None
      else None)"
| "fire m tc (TaskRelease i) l =
     (if i < length (tasks l) \<and> pc (tasks l ! i) = Deferred \<and> handshakeSema l < sema_cap l
      then Some (l\<lparr>tasks := (tasks l)[i := run_deferred (tasks l ! i)],
                   handshakeSema := handshakeSema l + 1\<rparr>)
      else None)"
| "fire m tc CallAccept l = Some (l\<lparr>callers := callers l @ [Waiting]\<rparr>)"
| "fire m tc (AcceptClosed j) l =
     (if j < length (callers l) \<and> callers l ! j = Waiting \<and> quit l = Closed
      then Some (l\<lparr>callers := (callers l)[j := Returned (Accept CaseClosed)]\<rparr>) else None)"
| "fire m tc CallClose l = (case Close tc l of None \<Rightarrow> None | Some (e, l') \<Rightarrow> Some l')"

text \<open>An execution: the steps taken one after the other, \<open>None\<close> if one cannot be taken.\<close>

fun exec ::
  "'n machine \<Rightarrow> ('t \<Rightarrow> error option \<times> 't) \<Rightarrow> action list \<Rightarrow> ('n, 't) listener \<Rightarrow> ('n, 't) listener option" where
  "exec m tc [] l = Some l"
| "exec m tc (a # as) l = (case fire m tc a l of None \<Rightarrow> None | Some l' \<Rightarrow> exec m tc as l')"

text \<open>Tokens taken out of the pool and not put back yet: by the loop, by a task.\<close>

fun loop_token :: "loop_pc \<Rightarrow> nat" where
  "loop_token LSelect = 0"
| "loop_token LReturned = 0"
| "loop_token _ = 1"

definition task_token :: "'n task \<Rightarrow> nat" where
  "task_token t = (if pc t = Finished then 0 else 1)"

definition active_tasks :: "('n, 't) listener \<Rightarrow> nat" where
  "active_tasks l = sum_list (map task_token (tasks l))"

definition tokens_in_flight :: "('n, 't) listener \<Rightarrow> nat" where
  "tokens_in_flight l = loop_token (loop l) + active_tasks l"


text \<open>
  The state of the pool: its capacity is \<^verbatim>\<open>defaultHandshakes\<close>, and the tokens in it and
  the tokens in flight add up to that.
\<close>

definition pool_ok :: "('n, 't) listener \<Rightarrow> bool" where
  "pool_ok l =
     (sema_cap l = defaultHandshakes \<and>
      handshakeSema l + tokens_in_flight l = defaultHandshakes)"

text \<open>
  A task has released its token once when it is gone and not before; a task that has not
  passed line 99 has done nothing and has no noise machine.
\<close>

definition task_ok :: "'n task \<Rightarrow> bool" where
  "task_ok t =
     (count_list (trace t) EvRelease = (if pc t = Finished then 1 else 0) \<and>
      (pc t = PreCheck \<longrightarrow> trace t = [] \<and> t_noise t = None))"

text \<open>An outcome with exactly one of its two fields set.\<close>

definition exclusive :: "'n maybeConn \<Rightarrow> bool" where
  "exclusive mc = ((conn mc = None) \<noteq> (err mc = None))"

fun offers_ok :: "'n pc \<Rightarrow> bool" where
  "offers_ok (Deliver mc) = exclusive mc"
| "offers_ok _ = True"

fun loop_ok :: "loop_pc \<Rightarrow> bool" where
  "loop_ok (LReject e) = (e \<noteq> None)"
| "loop_ok _ = True"

fun caller_ok :: "'n caller \<Rightarrow> bool" where
  "caller_ok (Returned (c, e)) = ((c = None) \<noteq> (e = None))"
| "caller_ok Waiting = True"

text \<open>
  Every outcome on offer, by a task or by the loop, is exclusive, and so is every pair
  \<^verbatim>\<open>Accept\<close> has returned.
\<close>

definition outcomes_ok :: "('n, 't) listener \<Rightarrow> bool" where
  "outcomes_ok l =
     ((\<forall>t \<in> set (tasks l). offers_ok (pc t)) \<and> loop_ok (loop l) \<and>
      (\<forall>r \<in> set (callers l). caller_ok r))"

section \<open>Reading a trace\<close>

text \<open>
  The outcomes a task emits: what its calls of \<^verbatim>\<open>acceptConn\<close> and \<^verbatim>\<open>rejectConn\<close> offer on
  \<^verbatim>\<open>l.conns\<close>.
\<close>

fun offered :: "'n event list \<Rightarrow> 'n maybeConn list" where
  "offered [] = []"
| "offered (EvRejectConn e # xs) = rejectConn_msg e # offered xs"
| "offered (EvAcceptConn c # xs) = acceptConn_msg c # offered xs"
| "offered (x # xs) = offered xs"

text \<open>The outcomes a receiver took from \<^verbatim>\<open>l.conns\<close>.\<close>

fun sent :: "'n event list \<Rightarrow> 'n maybeConn list" where
  "sent [] = []"
| "sent (EvSent mc # xs) = mc # sent xs"
| "sent (x # xs) = sent xs"

text \<open>The task left through \<^verbatim>\<open>case <-l.quit\<close> of line 144.\<close>

definition recheck_abort :: "'n machine \<Rightarrow> key \<Rightarrow> schedule \<Rightarrow> rawconn \<Rightarrow> bool" where
  "recheck_abort m k sch c =
     (pc (task_run m k (quit_at_precheck sch) (spawn c)) = ReCheck \<and> quit_at_recheck sch = Closed)"

text \<open>The error a logged call returned.\<close>

fun ev_err :: "'n event \<Rightarrow> error option" where
  "ev_err (EvReadFull n b r) = r"
| "ev_err (EvRecvActOne b r) = r"
| "ev_err (EvGenActTwo b r) = r"
| "ev_err (EvWrite b r) = r"
| "ev_err (EvRecvActThree b r) = r"
| "ev_err _ = None"

text \<open>The first call that returned an error, and what the task did after it.\<close>

fun after_failure :: "'n event list \<Rightarrow> (error \<times> 'n event list) option" where
  "after_failure [] = None"
| "after_failure (x # xs) = (case ev_err x of Some e \<Rightarrow> Some (e, xs) | None \<Rightarrow> after_failure xs)"

text \<open>The calls of the handshake proper, without their data.\<close>

datatype step = ReadFullOf nat | DoRecvActOne | DoGenActTwo | DoWrite | DoRecvActThree

fun steps :: "'n event list \<Rightarrow> step list" where
  "steps [] = []"
| "steps (EvReadFull n b r # xs) = ReadFullOf n # steps xs"
| "steps (EvRecvActOne b r # xs) = DoRecvActOne # steps xs"
| "steps (EvGenActTwo b r # xs) = DoGenActTwo # steps xs"
| "steps (EvWrite b r # xs) = DoWrite # steps xs"
| "steps (EvRecvActThree b r # xs) = DoRecvActThree # steps xs"
| "steps (x # xs) = steps xs"

text \<open>The deadlines set and the reads made, in order.\<close>

datatype timing = Arm | Clear | Read nat

fun timings :: "'n event list \<Rightarrow> timing list" where
  "timings [] = []"
| "timings (EvSetReadDeadline NowAddHandshakeReadTimeout # xs) = Arm # timings xs"
| "timings (EvSetReadDeadline ZeroTime # xs) = Clear # timings xs"
| "timings (EvReadFull n b r # xs) = Read n # timings xs"
| "timings (x # xs) = timings xs"

text \<open>The part of a trace before the call of \<^verbatim>\<open>acceptConn\<close>.\<close>

fun is_accept :: "'n event \<Rightarrow> bool" where
  "is_accept (EvAcceptConn c) = True"
| "is_accept _ = False"

definition before_accept :: "'n event list \<Rightarrow> 'n event list" where
  "before_accept tr = takeWhile (\<lambda>x. \<not> is_accept x) tr"

text \<open>The number of read deadlines a task armed.\<close>

definition armed :: "'n event list \<Rightarrow> nat" where
  "armed tr = length (filter (\<lambda>x. x = Arm) (timings tr))"

section \<open>Sample inputs\<close>

text \<open>
  A noise machine that counts its calls, wants \<open>[1, 2]\<close> as act one and \<open>[3]\<close> as act
  three, and answers \<open>[9]\<close>.
\<close>

definition sample_machine :: "int machine" where
  "sample_machine =
     \<lparr>NewNoiseMachine = (\<lambda>initiator k. 0),
      RecvActOne = (\<lambda>n bs. (if bs = [1, 2] then None else Some (Err ''act one''), n + 1)),
      GenActTwo = (\<lambda>n. (([9], None), n + 1)),
      RecvActThree = (\<lambda>n bs. (if bs = [3] then None else Some (Err ''act three''), n + 1)),
      ActOneSize = 2, ActThreeSize = 1\<rparr>"

text \<open>A peer that sends a good handshake and then nothing; one that sends nothing.\<close>

definition good_peer :: rawconn where
  "good_peer = \<lparr>rx = [1, 2, 3], rx_end = Err ''i/o timeout'', tx = [], wr_err = None,
                read_deadline = ZeroTime, closed = False\<rparr>"

definition silent_peer :: rawconn where
  "silent_peer = \<lparr>rx = [], rx_end = Err ''i/o timeout'', tx = [], wr_err = None,
                  read_deadline = ZeroTime, closed = False\<rparr>"

text \<open>
  Three schedules: never closed and the outcome taken by a receiver; closed while the task
  waits in its last \<^verbatim>\<open>select\<close>; closed before the task starts.
\<close>

definition sch_send :: schedule where
  "sch_send = \<lparr>quit_at_precheck = Open, quit_at_recheck = Open, delivery = Some CaseSend\<rparr>"

definition sch_quit :: schedule where
  "sch_quit = \<lparr>quit_at_precheck = Open, quit_at_recheck = Open, delivery = Some CaseQuit\<rparr>"

definition sch_closed :: schedule where
  "sch_closed = \<lparr>quit_at_precheck = Closed, quit_at_recheck = Closed, delivery = Some CaseQuit\<rparr>"

text \<open>
  A raw listener as \<^verbatim>\<open>net.TCPListener\<close> behaves: its state is whether it is closed, and
  closing it again is an error.
\<close>

definition net_Close :: "bool \<Rightarrow> error option \<times> bool" where
  "net_Close is_closed =
     (if is_closed then (Some (Err ''use of closed network connection''), True) else (None, True))"

definition sample_listener :: "(int, bool) listener" where
  "sample_listener =
     \<lparr>localStatic = 7, tcp = False, handshakeSema = 1000, sema_cap = 1000, quit = Open,
      loop = LSelect, tasks = [], callers = []\<rparr>"

text \<open>
  Four executions from \<open>sample_listener\<close>. A handshake that succeeds and is taken by a
  caller of \<^verbatim>\<open>Accept\<close>; a connection accepted just before \<^verbatim>\<open>Close\<close>; a raw accept that
  fails, before and after the loop has left \<^verbatim>\<open>rejectConn\<close> by \<^verbatim>\<open>Close\<close>.
\<close>

definition run_secured :: "action list" where
  "run_secured =
     [CallAccept, LoopToken, LoopAccept (Some good_peer) None, TaskRun 0, TaskRun 0,
      TaskSend 0 0, TaskRelease 0]"

definition run_shutdown :: "action list" where
  "run_shutdown = [LoopToken, LoopAccept (Some good_peer) None, CallClose]"

definition run_accept_error :: "action list" where
  "run_accept_error = [LoopToken, LoopAccept None (Some (Err ''accept''))]"

definition run_accept_error_closed :: "action list" where
  "run_accept_error_closed =
     [LoopToken, LoopAccept None (Some (Err ''accept'')), CallClose, LoopAbandon]"

section \<open>Every way through \<^verbatim>\<open>doHandshake\<close>\<close>

lemmas seg_defs = acts_one_two_def act_three_def close_reject_def
  rejectConn_def acceptConn_def Let_def

lemma ReadFull_keeps:
  "ReadFull c n = ((b, r), c') \<Longrightarrow>
     closed c' = closed c \<and> read_deadline c' = read_deadline c \<and> tx c' = tx c \<and>
     (r = None \<longrightarrow> b = take n (rx c) \<and> length b = n \<and> rx c' = drop n (rx c))"
  by (auto simp: ReadFull_def split: if_splits)

lemma Write_keeps:
  "Write c bs = (r, c') \<Longrightarrow> closed c' = closed c \<and> read_deadline c' = read_deadline c \<and> rx c' = rx c"
  by (auto simp: Write_def split: option.splits)

lemma acts_one_two_cases:
  fixes m :: "'n machine" and t :: "'n task" and k :: key
  defines "c1 \<equiv> SetReadDeadline NowAddHandshakeReadTimeout (t_conn t)"
  defines "n0 \<equiv> NewNoiseMachine m False k"
  defines "pre \<equiv> trace t @ [EvNewNoiseMachine, EvSetReadDeadline NowAddHandshakeReadTimeout]"
  obtains
    (read_fail) b e c2 where
      "ReadFull c1 (ActOneSize m) = ((b, Some e), c2)"
      "acts_one_two m k Open t =
         \<lparr>pc = Deliver (rejectConn_msg (Some e)), t_conn = conn_Close c2, t_noise = Some n0,
          trace = pre @ [EvReadFull (ActOneSize m) b (Some e), EvClose, EvRejectConn (Some e)]\<rparr>"
  | (recv_fail) b e c2 n1 where
      "ReadFull c1 (ActOneSize m) = ((b, None), c2)"
      "acts_one_two m k Open t =
         \<lparr>pc = Deliver (rejectConn_msg (Some e)), t_conn = conn_Close c2, t_noise = Some n1,
          trace = pre @ [EvReadFull (ActOneSize m) b None, EvRecvActOne b (Some e),
                         EvClose, EvRejectConn (Some e)]\<rparr>"
  | (gen_fail) b a e c2 n2 where
      "ReadFull c1 (ActOneSize m) = ((b, None), c2)"
      "acts_one_two m k Open t =
         \<lparr>pc = Deliver (rejectConn_msg (Some e)), t_conn = conn_Close c2, t_noise = Some n2,
          trace = pre @ [EvReadFull (ActOneSize m) b None, EvRecvActOne b None,
                         EvGenActTwo a (Some e), EvClose, EvRejectConn (Some e)]\<rparr>"
  | (write_fail) b a e c2 c3 n2 where
      "ReadFull c1 (ActOneSize m) = ((b, None), c2)" "Write c2 a = (Some e, c3)"
      "acts_one_two m k Open t =
         \<lparr>pc = Deliver (rejectConn_msg (Some e)), t_conn = conn_Close c3, t_noise = Some n2,
          trace = pre @ [EvReadFull (ActOneSize m) b None, EvRecvActOne b None,
                         EvGenActTwo a None, EvWrite a (Some e), EvClose, EvRejectConn (Some e)]\<rparr>"
  | (written) b a c2 c3 n2 where
      "ReadFull c1 (ActOneSize m) = ((b, None), c2)" "Write c2 a = (None, c3)"
      "acts_one_two m k Open t =
         \<lparr>pc = ReCheck, t_conn = c3, t_noise = Some n2,
          trace = pre @ [EvReadFull (ActOneSize m) b None, EvRecvActOne b None,
                         EvGenActTwo a None, EvWrite a None]\<rparr>"
proof -
  obtain b r c2 where R: "ReadFull c1 (ActOneSize m) = ((b, r), c2)"
    by (metis surj_pair)
  obtain e2 n1 where V: "RecvActOne m n0 b = (e2, n1)"
    by (metis surj_pair)
  obtain a e3 n2 where G: "GenActTwo m n1 = ((a, e3), n2)"
    by (metis surj_pair)
  obtain e4 c3 where W: "Write c2 a = (e4, c3)"
    by (metis surj_pair)
  note unfold = seg_defs c1_def[symmetric] n0_def[symmetric] pre_def
  show thesis
  proof (cases r)
    case (Some e)
    with R show thesis
      by (intro read_fail[of b e c2]) (simp_all add: unfold)
  next
    case r: None
    show thesis
    proof (cases e2)
      case (Some e)
      with R V r show thesis
        by (intro recv_fail[of b c2 e n1]) (simp_all add: unfold)
    next
      case e2: None
      show thesis
      proof (cases e3)
        case (Some e)
        with R V G r e2 show thesis
          by (intro gen_fail[of b c2 e n2 a]) (simp_all add: unfold)
      next
        case e3: None
        show thesis
        proof (cases e4)
          case (Some e)
          with R V G W r e2 e3 show thesis
            by (intro write_fail[of b c2 a e c3 n2]) (simp_all add: unfold)
        next
          case None
          with R V G W r e2 e3 show thesis
            by (intro written[of b c2 a c3 n2]) (simp_all add: unfold)
        qed
      qed
    qed
  qed
qed

lemma act_three_cases:
  fixes m :: "'n machine" and t :: "'n task"
  assumes "t_noise t = Some n2"
  defines "c4 \<equiv> SetReadDeadline NowAddHandshakeReadTimeout (t_conn t)"
  defines "pre \<equiv> trace t @ [EvSetReadDeadline NowAddHandshakeReadTimeout]"
  obtains
    (read_fail) b e c5 where
      "ReadFull c4 (ActThreeSize m) = ((b, Some e), c5)"
      "act_three m Open t =
         \<lparr>pc = Deliver (rejectConn_msg (Some e)), t_conn = conn_Close c5, t_noise = Some n2,
          trace = pre @ [EvReadFull (ActThreeSize m) b (Some e), EvClose, EvRejectConn (Some e)]\<rparr>"
  | (recv_fail) b e c5 n3 where
      "ReadFull c4 (ActThreeSize m) = ((b, None), c5)"
      "act_three m Open t =
         \<lparr>pc = Deliver (rejectConn_msg (Some e)), t_conn = conn_Close c5, t_noise = Some n3,
          trace = pre @ [EvReadFull (ActThreeSize m) b None, EvRecvActThree b (Some e),
                         EvClose, EvRejectConn (Some e)]\<rparr>"
  | (secured) b c5 n3 where
      "ReadFull c4 (ActThreeSize m) = ((b, None), c5)"
      "act_three m Open t =
         \<lparr>pc = Deliver (acceptConn_msg (Some (Conn (SetReadDeadline ZeroTime c5) n3))),
          t_conn = SetReadDeadline ZeroTime c5, t_noise = Some n3,
          trace = pre @ [EvReadFull (ActThreeSize m) b None, EvRecvActThree b None,
                         EvSetReadDeadline ZeroTime,
                         EvAcceptConn (Some (Conn (SetReadDeadline ZeroTime c5) n3))]\<rparr>"
proof -
  obtain b r c5 where R: "ReadFull c4 (ActThreeSize m) = ((b, r), c5)"
    by (metis surj_pair)
  obtain e6 n3 where V: "RecvActThree m n2 b = (e6, n3)"
    by (metis surj_pair)
  show thesis
  proof (cases r)
    case (Some e)
    with R assms(1) show thesis
      by (intro read_fail[of b e c5]) (simp_all add: seg_defs c4_def pre_def)
  next
    case None
    note rNone = this
    show thesis
    proof (cases e6)
      case (Some e)
      with R V rNone assms(1) show thesis
        by (intro recv_fail[of b c5 e n3]) (simp_all add: seg_defs c4_def pre_def)
    next
      case None
      with R V rNone assms(1) show thesis
        by (intro secured[of b c5 n3]) (simp_all add: seg_defs c4_def pre_def)
    qed
  qed
qed


lemma finish_Deliver:
  "finish d \<lparr>pc = Deliver mc, t_conn = c, t_noise = n, trace = tr\<rparr> =
     (case d of
        None \<Rightarrow> \<lparr>pc = Deliver mc, t_conn = c, t_noise = n, trace = tr\<rparr>
      | Some CaseSend \<Rightarrow> \<lparr>pc = Finished, t_conn = c, t_noise = n, trace = tr @ [EvSent mc, EvRelease]\<rparr>
      | Some CaseQuit \<Rightarrow> \<lparr>pc = Finished, t_conn = c, t_noise = n, trace = tr @ [EvQuit, EvRelease]\<rparr>)"
  by (simp add: finish_def select_done_def run_deferred_def split: option.splits select_case.splits)

lemma doHandshake_precheck:
  "quit_at_precheck sch = Closed \<Longrightarrow>
     doHandshake m k sch c = \<lparr>pc = Finished, t_conn = c, t_noise = None, trace = [EvRelease]\<rparr>"
  by (simp add: doHandshake_def task_run_def acts_one_two_def spawn_def finish_def
      select_done_def run_deferred_def split: option.splits)

lemma doHandshake_cases:
  fixes m :: "'n machine" and k :: key and c :: rawconn
  defines "c1 \<equiv> SetReadDeadline NowAddHandshakeReadTimeout c"
  defines "n0 \<equiv> NewNoiseMachine m False k"
  defines "arm \<equiv> EvSetReadDeadline NowAddHandshakeReadTimeout"
  obtains
    (precheck) "quit_at_precheck sch = Closed" "\<not> recheck_abort m k sch c"
      "doHandshake m k sch c = \<lparr>pc = Finished, t_conn = c, t_noise = None, trace = [EvRelease]\<rparr>"
  | (read_one) b e c2 where
      "quit_at_precheck sch = Open" "\<not> recheck_abort m k sch c"
      "ReadFull c1 (ActOneSize m) = ((b, Some e), c2)"
      "doHandshake m k sch c = finish (delivery sch)
         \<lparr>pc = Deliver (rejectConn_msg (Some e)), t_conn = conn_Close c2, t_noise = Some n0,
          trace = [EvNewNoiseMachine, arm, EvReadFull (ActOneSize m) b (Some e),
                   EvClose, EvRejectConn (Some e)]\<rparr>"
  | (recv_one) b e c2 n1 where
      "quit_at_precheck sch = Open" "\<not> recheck_abort m k sch c"
      "ReadFull c1 (ActOneSize m) = ((b, None), c2)"
      "doHandshake m k sch c = finish (delivery sch)
         \<lparr>pc = Deliver (rejectConn_msg (Some e)), t_conn = conn_Close c2, t_noise = Some n1,
          trace = [EvNewNoiseMachine, arm, EvReadFull (ActOneSize m) b None,
                   EvRecvActOne b (Some e), EvClose, EvRejectConn (Some e)]\<rparr>"
  | (gen_two) b a e c2 n2 where
      "quit_at_precheck sch = Open" "\<not> recheck_abort m k sch c"
      "ReadFull c1 (ActOneSize m) = ((b, None), c2)"
      "doHandshake m k sch c = finish (delivery sch)
         \<lparr>pc = Deliver (rejectConn_msg (Some e)), t_conn = conn_Close c2, t_noise = Some n2,
          trace = [EvNewNoiseMachine, arm, EvReadFull (ActOneSize m) b None,
                   EvRecvActOne b None, EvGenActTwo a (Some e), EvClose, EvRejectConn (Some e)]\<rparr>"
  | (write_two) b a e c2 c3 n2 where
      "quit_at_precheck sch = Open" "\<not> recheck_abort m k sch c"
      "ReadFull c1 (ActOneSize m) = ((b, None), c2)" "Write c2 a = (Some e, c3)"
      "doHandshake m k sch c = finish (delivery sch)
         \<lparr>pc = Deliver (rejectConn_msg (Some e)), t_conn = conn_Close c3, t_noise = Some n2,
          trace = [EvNewNoiseMachine, arm, EvReadFull (ActOneSize m) b None,
                   EvRecvActOne b None, EvGenActTwo a None, EvWrite a (Some e),
                   EvClose, EvRejectConn (Some e)]\<rparr>"
  | (recheck) b a c2 c3 n2 where
      "quit_at_precheck sch = Open" "recheck_abort m k sch c"
      "ReadFull c1 (ActOneSize m) = ((b, None), c2)" "Write c2 a = (None, c3)"
      "doHandshake m k sch c =
         \<lparr>pc = Finished, t_conn = c3, t_noise = Some n2,
          trace = [EvNewNoiseMachine, arm, EvReadFull (ActOneSize m) b None,
                   EvRecvActOne b None, EvGenActTwo a None, EvWrite a None, EvRelease]\<rparr>"
  | (read_three) b a b' e c2 c3 c5 n2 where
      "quit_at_precheck sch = Open" "\<not> recheck_abort m k sch c"
      "ReadFull c1 (ActOneSize m) = ((b, None), c2)" "Write c2 a = (None, c3)"
      "ReadFull (SetReadDeadline NowAddHandshakeReadTimeout c3) (ActThreeSize m) = ((b', Some e), c5)"
      "doHandshake m k sch c = finish (delivery sch)
         \<lparr>pc = Deliver (rejectConn_msg (Some e)), t_conn = conn_Close c5, t_noise = Some n2,
          trace = [EvNewNoiseMachine, arm, EvReadFull (ActOneSize m) b None,
                   EvRecvActOne b None, EvGenActTwo a None, EvWrite a None,
                   arm, EvReadFull (ActThreeSize m) b' (Some e), EvClose, EvRejectConn (Some e)]\<rparr>"
  | (recv_three) b a b' e c2 c3 c5 n3 where
      "quit_at_precheck sch = Open" "\<not> recheck_abort m k sch c"
      "ReadFull c1 (ActOneSize m) = ((b, None), c2)" "Write c2 a = (None, c3)"
      "ReadFull (SetReadDeadline NowAddHandshakeReadTimeout c3) (ActThreeSize m) = ((b', None), c5)"
      "doHandshake m k sch c = finish (delivery sch)
         \<lparr>pc = Deliver (rejectConn_msg (Some e)), t_conn = conn_Close c5, t_noise = Some n3,
          trace = [EvNewNoiseMachine, arm, EvReadFull (ActOneSize m) b None,
                   EvRecvActOne b None, EvGenActTwo a None, EvWrite a None,
                   arm, EvReadFull (ActThreeSize m) b' None, EvRecvActThree b' (Some e),
                   EvClose, EvRejectConn (Some e)]\<rparr>"
  | (secured) b a b' c2 c3 c5 n3 where
      "quit_at_precheck sch = Open" "\<not> recheck_abort m k sch c"
      "ReadFull c1 (ActOneSize m) = ((b, None), c2)" "Write c2 a = (None, c3)"
      "ReadFull (SetReadDeadline NowAddHandshakeReadTimeout c3) (ActThreeSize m) = ((b', None), c5)"
      "doHandshake m k sch c = finish (delivery sch)
         \<lparr>pc = Deliver (acceptConn_msg (Some (Conn (SetReadDeadline ZeroTime c5) n3))),
          t_conn = SetReadDeadline ZeroTime c5, t_noise = Some n3,
          trace = [EvNewNoiseMachine, arm, EvReadFull (ActOneSize m) b None,
                   EvRecvActOne b None, EvGenActTwo a None, EvWrite a None,
                   arm, EvReadFull (ActThreeSize m) b' None, EvRecvActThree b' None,
                   EvSetReadDeadline ZeroTime,
                   EvAcceptConn (Some (Conn (SetReadDeadline ZeroTime c5) n3))]\<rparr>"
proof (cases "quit_at_precheck sch")
  case Closed
  then show thesis
    by (intro precheck) (simp_all add: doHandshake_precheck recheck_abort_def task_run_def
        acts_one_two_def spawn_def)
next
  case Open
  have sp: "t_conn (spawn c :: 'n task) = c" "trace (spawn c :: 'n task) = []"
    "pc (spawn c :: 'n task) = PreCheck"
    by (simp_all add: spawn_def)
  note un = doHandshake_def recheck_abort_def task_run_def sp c1_def n0_def arm_def
  show thesis
  proof (rule acts_one_two_cases[where m = m and k = k and t = "spawn c"])
    fix b e c2
    assume "ReadFull (SetReadDeadline NowAddHandshakeReadTimeout (t_conn (spawn c :: 'n task)))
              (ActOneSize m) = ((b, Some e), c2)"
      and "acts_one_two m k Open (spawn c) =
         \<lparr>pc = Deliver (rejectConn_msg (Some e)), t_conn = conn_Close c2,
          t_noise = Some (NewNoiseMachine m False k),
          trace = (trace (spawn c) @ [EvNewNoiseMachine, EvSetReadDeadline NowAddHandshakeReadTimeout]) @
                  [EvReadFull (ActOneSize m) b (Some e), EvClose, EvRejectConn (Some e)]\<rparr>"
    with Open show thesis
      by (intro read_one[of b e c2]) (simp_all add: un)
  next
    fix b e c2 n1
    assume "ReadFull (SetReadDeadline NowAddHandshakeReadTimeout (t_conn (spawn c :: 'n task)))
              (ActOneSize m) = ((b, None), c2)"
      and "acts_one_two m k Open (spawn c) =
         \<lparr>pc = Deliver (rejectConn_msg (Some e)), t_conn = conn_Close c2, t_noise = Some n1,
          trace = (trace (spawn c) @ [EvNewNoiseMachine, EvSetReadDeadline NowAddHandshakeReadTimeout]) @
                  [EvReadFull (ActOneSize m) b None, EvRecvActOne b (Some e),
                   EvClose, EvRejectConn (Some e)]\<rparr>"
    with Open show thesis
      by (intro recv_one[of b c2 e n1]) (simp_all add: un)
  next
    fix b a e c2 n2
    assume "ReadFull (SetReadDeadline NowAddHandshakeReadTimeout (t_conn (spawn c :: 'n task)))
              (ActOneSize m) = ((b, None), c2)"
      and "acts_one_two m k Open (spawn c) =
         \<lparr>pc = Deliver (rejectConn_msg (Some e)), t_conn = conn_Close c2, t_noise = Some n2,
          trace = (trace (spawn c) @ [EvNewNoiseMachine, EvSetReadDeadline NowAddHandshakeReadTimeout]) @
                  [EvReadFull (ActOneSize m) b None, EvRecvActOne b None,
                   EvGenActTwo a (Some e), EvClose, EvRejectConn (Some e)]\<rparr>"
    with Open show thesis
      by (intro gen_two[of b c2 e n2 a]) (simp_all add: un)
  next
    fix b a e c2 c3 n2
    assume "ReadFull (SetReadDeadline NowAddHandshakeReadTimeout (t_conn (spawn c :: 'n task)))
              (ActOneSize m) = ((b, None), c2)" "Write c2 a = (Some e, c3)"
      and "acts_one_two m k Open (spawn c) =
         \<lparr>pc = Deliver (rejectConn_msg (Some e)), t_conn = conn_Close c3, t_noise = Some n2,
          trace = (trace (spawn c) @ [EvNewNoiseMachine, EvSetReadDeadline NowAddHandshakeReadTimeout]) @
                  [EvReadFull (ActOneSize m) b None, EvRecvActOne b None,
                   EvGenActTwo a None, EvWrite a (Some e), EvClose, EvRejectConn (Some e)]\<rparr>"
    with Open show thesis
      by (intro write_two[of b c2 a e c3 n2]) (simp_all add: un)
  next
    fix b a c2 c3 n2
    assume R: "ReadFull (SetReadDeadline NowAddHandshakeReadTimeout (t_conn (spawn c :: 'n task)))
              (ActOneSize m) = ((b, None), c2)" and W: "Write c2 a = (None, c3)"
      and A: "acts_one_two m k Open (spawn c) =
         \<lparr>pc = ReCheck, t_conn = c3, t_noise = Some n2,
          trace = (trace (spawn c) @ [EvNewNoiseMachine, EvSetReadDeadline NowAddHandshakeReadTimeout]) @
                  [EvReadFull (ActOneSize m) b None, EvRecvActOne b None,
                   EvGenActTwo a None, EvWrite a None]\<rparr>"
    define t1 :: "'n task" where "t1 = acts_one_two m k Open (spawn c)"
    have t1: "pc t1 = ReCheck" "t_conn t1 = c3" "t_noise t1 = Some n2"
      "trace t1 = [EvNewNoiseMachine, arm, EvReadFull (ActOneSize m) b None, EvRecvActOne b None,
                   EvGenActTwo a None, EvWrite a None]"
      by (simp_all add: t1_def A sp arm_def)
    have D: "doHandshake m k sch c = finish (delivery sch) (act_three m (quit_at_recheck sch) t1)"
      using Open by (simp add: doHandshake_def task_run_def sp t1_def[symmetric] t1)
    show thesis
    proof (cases "quit_at_recheck sch")
      case Closed
      have t1eq: "t1 = \<lparr>pc = ReCheck, t_conn = c3, t_noise = Some n2,
          trace = [EvNewNoiseMachine, arm, EvReadFull (ActOneSize m) b None, EvRecvActOne b None,
                   EvGenActTwo a None, EvWrite a None]\<rparr>"
        by (simp add: t1_def A sp arm_def)
      have "doHandshake m k sch c =
          \<lparr>pc = Finished, t_conn = c3, t_noise = Some n2,
           trace = [EvNewNoiseMachine, arm, EvReadFull (ActOneSize m) b None, EvRecvActOne b None,
                   EvGenActTwo a None, EvWrite a None, EvRelease]\<rparr>"
        unfolding D Closed t1eq
        by (simp add: act_three_def finish_def select_done_def run_deferred_def
            split: option.splits)
      with Open Closed R W t1 show thesis
        by (intro recheck[of b c2 a c3 n2])
           (simp_all add: recheck_abort_def task_run_def sp t1_def[symmetric] c1_def)
    next
      case Open2: Open
      have NR: "\<not> recheck_abort m k sch c"
        using Open2 by (simp add: recheck_abort_def)
      show thesis
      proof (rule act_three_cases[where t = t1 and m = m and ?n2.0 = n2])
        show "t_noise t1 = Some n2" by (rule t1)
      next
        fix b' e c5
        assume "ReadFull (SetReadDeadline NowAddHandshakeReadTimeout (t_conn t1)) (ActThreeSize m) =
                  ((b', Some e), c5)"
          and "act_three m Open t1 =
            \<lparr>pc = Deliver (rejectConn_msg (Some e)), t_conn = conn_Close c5, t_noise = Some n2,
             trace = (trace t1 @ [EvSetReadDeadline NowAddHandshakeReadTimeout]) @
                     [EvReadFull (ActThreeSize m) b' (Some e), EvClose, EvRejectConn (Some e)]\<rparr>"
        with Open Open2 NR R W D show thesis
          by (intro read_three[of b c2 a c3 b' e c5 n2]) (simp_all add: t1 sp c1_def arm_def)
      next
        fix b' e c5 n3
        assume "ReadFull (SetReadDeadline NowAddHandshakeReadTimeout (t_conn t1)) (ActThreeSize m) =
                  ((b', None), c5)"
          and "act_three m Open t1 =
            \<lparr>pc = Deliver (rejectConn_msg (Some e)), t_conn = conn_Close c5, t_noise = Some n3,
             trace = (trace t1 @ [EvSetReadDeadline NowAddHandshakeReadTimeout]) @
                     [EvReadFull (ActThreeSize m) b' None, EvRecvActThree b' (Some e),
                      EvClose, EvRejectConn (Some e)]\<rparr>"
        with Open Open2 NR R W D show thesis
          by (intro recv_three[of b c2 a c3 b' c5 e n3]) (simp_all add: t1 sp c1_def arm_def)
      next
        fix b' c5 n3
        assume "ReadFull (SetReadDeadline NowAddHandshakeReadTimeout (t_conn t1)) (ActThreeSize m) =
                  ((b', None), c5)"
          and "act_three m Open t1 =
            \<lparr>pc = Deliver (acceptConn_msg (Some (Conn (SetReadDeadline ZeroTime c5) n3))),
             t_conn = SetReadDeadline ZeroTime c5, t_noise = Some n3,
             trace = (trace t1 @ [EvSetReadDeadline NowAddHandshakeReadTimeout]) @
                     [EvReadFull (ActThreeSize m) b' None, EvRecvActThree b' None,
                      EvSetReadDeadline ZeroTime,
                      EvAcceptConn (Some (Conn (SetReadDeadline ZeroTime c5) n3))]\<rparr>"
        with Open Open2 NR R W D show thesis
          by (intro secured[of b c2 a c3 b' c5 n3]) (simp_all add: t1 sp c1_def arm_def)
      qed
    qed
  qed
qed

lemma take2: "take 2 (x # y # zs) = [x, y]" "drop 2 (x # y # zs) = zs"
  by (simp_all add: numeral_2_eq_2)

lemma SetReadDeadline_keeps:
  "rx (SetReadDeadline d c) = rx c" "closed (SetReadDeadline d c) = closed c"
  "read_deadline (SetReadDeadline d c) = d"
  by (simp_all add: SetReadDeadline_def)

lemma hs_steps:
  "prefix (steps (trace (doHandshake m k sch c)))
     [ReadFullOf (ActOneSize m), DoRecvActOne, DoGenActTwo, DoWrite,
      ReadFullOf (ActThreeSize m), DoRecvActThree]"
  by (rule doHandshake_cases[where m = m and k = k and sch = sch and c = c])
     (simp_all add: finish_Deliver split: option.splits select_case.splits)

lemma hs_failure:
  "after_failure (trace (doHandshake m k sch c)) = Some (e, rest) \<Longrightarrow>
     take 2 rest = [EvClose, EvRejectConn (Some e)] \<and>
     set (drop 2 rest) \<subseteq> {EvSent (rejectConn_msg (Some e)), EvQuit, EvRelease} \<and>
     offered (trace (doHandshake m k sch c)) = [rejectConn_msg (Some e)] \<and>
     closed (t_conn (doHandshake m k sch c)) \<and>
     pc (doHandshake m k sch c) =
       (if delivery sch = None then Deliver (rejectConn_msg (Some e)) else Finished)"
  by (rule doHandshake_cases[where m = m and k = k and sch = sch and c = c])
     (auto simp: finish_Deliver take2 conn_Close_def split: option.splits select_case.splits)

lemma hs_act_one_bytes:
  "EvRecvActOne b r \<in> set (trace (doHandshake m k sch c)) \<Longrightarrow>
     EvReadFull (ActOneSize m) b None \<in> set (trace (doHandshake m k sch c)) \<and>
     b = take (ActOneSize m) (rx c) \<and> length b = ActOneSize m"
  by (rule doHandshake_cases[where m = m and k = k and sch = sch and c = c])
     (auto simp: finish_Deliver SetReadDeadline_keeps
       dest!: ReadFull_keeps split: option.splits select_case.splits)

lemma hs_act_two_bytes:
  "EvWrite a r \<in> set (trace (doHandshake m k sch c)) \<Longrightarrow>
     EvGenActTwo a None \<in> set (trace (doHandshake m k sch c))"
  by (rule doHandshake_cases[where m = m and k = k and sch = sch and c = c])
     (auto simp: finish_Deliver split: option.splits select_case.splits)

lemma hs_act_three_bytes:
  "EvRecvActThree b r \<in> set (trace (doHandshake m k sch c)) \<Longrightarrow>
     EvReadFull (ActThreeSize m) b None \<in> set (trace (doHandshake m k sch c)) \<and>
     b = take (ActThreeSize m) (drop (ActOneSize m) (rx c)) \<and> length b = ActThreeSize m"
  by (rule doHandshake_cases[where m = m and k = k and sch = sch and c = c])
     (auto simp: finish_Deliver SetReadDeadline_keeps
       dest!: ReadFull_keeps Write_keeps split: option.splits select_case.splits)

lemma hs_offered:
  "length (offered (trace (doHandshake m k sch c))) =
     (if quit_at_precheck sch = Closed \<or> recheck_abort m k sch c then 0 else 1) \<and>
   sent (trace (doHandshake m k sch c)) =
     (if delivery sch = Some CaseSend then offered (trace (doHandshake m k sch c)) else [])"
  by (rule doHandshake_cases[where m = m and k = k and sch = sch and c = c])
     (simp_all add: finish_Deliver split: option.splits select_case.splits)

lemma hs_timings:
  "timings (trace (doHandshake m k sch c)) \<in>
     {[], [Arm, Read (ActOneSize m)], [Arm, Read (ActOneSize m), Arm, Read (ActThreeSize m)],
      [Arm, Read (ActOneSize m), Arm, Read (ActThreeSize m), Clear]}"
  by (rule doHandshake_cases[where m = m and k = k and sch = sch and c = c])
     (simp_all add: finish_Deliver split: option.splits select_case.splits)

lemma hs_secured:
  "EvAcceptConn cn \<in> set (trace (doHandshake m k sch c)) \<Longrightarrow>
     timings (before_accept (trace (doHandshake m k sch c))) =
       [Arm, Read (ActOneSize m), Arm, Read (ActThreeSize m), Clear] \<and>
     armed (trace (doHandshake m k sch c)) = 2 \<and>
     (\<exists>rc n. cn = Some (Conn rc n) \<and> read_deadline rc = ZeroTime \<and> closed rc = closed c) \<and>
     EvClose \<notin> set (trace (doHandshake m k sch c)) \<and>
     closed (t_conn (doHandshake m k sch c)) = closed c"
  by (rule doHandshake_cases[where m = m and k = k and sch = sch and c = c])
     (auto simp: finish_Deliver before_accept_def armed_def SetReadDeadline_keeps
       dest!: ReadFull_keeps Write_keeps split: option.splits select_case.splits)

lemma hs_aborted:
  "quit_at_precheck sch = Closed \<or> recheck_abort m k sch c \<Longrightarrow>
     EvClose \<notin> set (trace (doHandshake m k sch c)) \<and>
     closed (t_conn (doHandshake m k sch c)) = closed c \<and>
     offered (trace (doHandshake m k sch c)) = []"
  by (rule doHandshake_cases[where m = m and k = k and sch = sch and c = c])
     (auto simp: finish_Deliver SetReadDeadline_keeps
       dest!: ReadFull_keeps Write_keeps split: option.splits select_case.splits)

lemma hs_rejected:
  "EvRejectConn e \<in> set (trace (doHandshake m k sch c)) \<Longrightarrow>
     EvClose \<in> set (takeWhile (\<lambda>x. x \<noteq> EvRejectConn e) (trace (doHandshake m k sch c))) \<and>
     closed (t_conn (doHandshake m k sch c)) \<and> e \<noteq> None"
  by (rule doHandshake_cases[where m = m and k = k and sch = sch and c = c])
     (auto simp: finish_Deliver conn_Close_def split: option.splits select_case.splits)

lemma hs_armed_le: "armed (trace (doHandshake m k sch c)) \<le> 2"
  using hs_timings[of m k sch c] by (auto simp: armed_def)

lemma hs_release:
  "count_list (trace (doHandshake m k sch c)) EvRelease =
     (if pc (doHandshake m k sch c) = Finished then 1 else 0) \<and>
   (pc (doHandshake m k sch c) = Finished \<longrightarrow> last (trace (doHandshake m k sch c)) = EvRelease) \<and>
   (pc (doHandshake m k sch c) \<noteq> Finished \<longrightarrow> delivery sch = None \<and> (\<exists>mc. pc (doHandshake m k sch c) = Deliver mc))"
  by (rule doHandshake_cases[where m = m and k = k and sch = sch and c = c])
     (auto simp: finish_Deliver split: option.splits select_case.splits)

section \<open>Sample runs\<close>

lemmas run_defs = doHandshake_def task_run_def acts_one_two_def act_three_def close_reject_def
  rejectConn_def acceptConn_def spawn_def finish_def select_done_def run_deferred_def
  ReadFull_def Write_def SetReadDeadline_def conn_Close_def Let_def
  sample_machine_def good_peer_def silent_peer_def
  sch_send_def sch_quit_def sch_closed_def


lemma good_run:
  "doHandshake sample_machine 7 sch_send good_peer =
    \<lparr>pc = Finished,
      t_conn = \<lparr>rx = [], rx_end = Err ''i/o timeout'', tx = [9], wr_err = None,
                read_deadline = ZeroTime, closed = False\<rparr>,
      t_noise = Some 3,
      trace = [EvNewNoiseMachine, EvSetReadDeadline NowAddHandshakeReadTimeout,
               EvReadFull 2 [1, 2] None, EvRecvActOne [1, 2] None, EvGenActTwo [9] None,
               EvWrite [9] None, EvSetReadDeadline NowAddHandshakeReadTimeout,
               EvReadFull 1 [3] None, EvRecvActThree [3] None, EvSetReadDeadline ZeroTime,
               EvAcceptConn (Some (Conn \<lparr>rx = [], rx_end = Err ''i/o timeout'', tx = [9],
                 wr_err = None, read_deadline = ZeroTime, closed = False\<rparr> 3)),
               EvSent (acceptConn_msg (Some (Conn \<lparr>rx = [], rx_end = Err ''i/o timeout'',
                 tx = [9], wr_err = None, read_deadline = ZeroTime, closed = False\<rparr> 3))),
               EvRelease]\<rparr>"
  by (simp add: run_defs)

lemma silent_run:
  "doHandshake sample_machine 7 sch_quit silent_peer =
    \<lparr>pc = Finished,
      t_conn = \<lparr>rx = [], rx_end = Err ''i/o timeout'', tx = [], wr_err = None,
                read_deadline = NowAddHandshakeReadTimeout, closed = True\<rparr>,
      t_noise = Some 0,
      trace = [EvNewNoiseMachine, EvSetReadDeadline NowAddHandshakeReadTimeout,
               EvReadFull 2 [0, 0] (Some (Err ''i/o timeout'')), EvClose,
               EvRejectConn (Some (Err ''i/o timeout'')), EvQuit, EvRelease]\<rparr>"
  by (simp add: run_defs numeral_2_eq_2)

lemma closed_run:
  "doHandshake sample_machine 7 sch_closed good_peer =
    \<lparr>pc = Finished, t_conn = good_peer, t_noise = None, trace = [EvRelease]\<rparr>"
  by (simp add: doHandshake_precheck sch_closed_def)

lemma good_quit_run:
  "trace (doHandshake sample_machine 7 sch_quit good_peer) =
     [EvNewNoiseMachine, EvSetReadDeadline NowAddHandshakeReadTimeout,
      EvReadFull 2 [1, 2] None, EvRecvActOne [1, 2] None, EvGenActTwo [9] None,
      EvWrite [9] None, EvSetReadDeadline NowAddHandshakeReadTimeout,
      EvReadFull 1 [3] None, EvRecvActThree [3] None, EvSetReadDeadline ZeroTime,
      EvAcceptConn (Some (Conn \<lparr>rx = [], rx_end = Err ''i/o timeout'', tx = [9],
        wr_err = None, read_deadline = ZeroTime, closed = False\<rparr> 3)),
      EvQuit, EvRelease]"
  by (simp add: run_defs)

lemma sample_sizes:
  "ActOneSize sample_machine = 2" "ActThreeSize sample_machine = 1"
  by (simp_all add: sample_machine_def)

lemma sample_rx: "rx good_peer = [1, 2, 3]" "rx silent_peer = []"
  by (simp_all add: good_peer_def silent_peer_def)

section \<open>The claims about one handshake task\<close>

text \<open>
  Claim C2, as amended. A task emits an outcome by calling \<^verbatim>\<open>acceptConn\<close> or
  \<^verbatim>\<open>rejectConn\<close>. It emits none on two paths, the check of line 99 finding \<^verbatim>\<open>l.quit\<close>
  closed and the check of line 143 finding it closed, and exactly one on every other
  path. A receiver gets the emitted outcome exactly when the \<^verbatim>\<open>select\<close> of that call takes
  its send case, and nothing otherwise.
\<close>

theorem outcomes_per_task:
  "length (offered (trace (doHandshake m k sch c))) =
     (if quit_at_precheck sch = Closed \<or> recheck_abort m k sch c then 0 else 1) \<and>
   sent (trace (doHandshake m k sch c)) =
     (if delivery sch = Some CaseSend then offered (trace (doHandshake m k sch c)) else [])"
  by (rule hs_offered)

theorem outcomes_per_task_witness:
  "\<not> (quit_at_precheck sch_send = Closed \<or> recheck_abort sample_machine 7 sch_send good_peer) \<and>
   delivery sch_send = Some CaseSend \<and>
   length (offered (trace (doHandshake sample_machine 7 sch_send good_peer))) = 1 \<and>
   sent (trace (doHandshake sample_machine 7 sch_send good_peer)) =
     offered (trace (doHandshake sample_machine 7 sch_send good_peer))"
proof -
  have "\<not> (quit_at_precheck sch_send = Closed \<or> recheck_abort sample_machine 7 sch_send good_peer)"
    "delivery sch_send = Some CaseSend"
    by (simp_all add: recheck_abort_def sch_send_def)
  then show ?thesis
    using outcomes_per_task[of sample_machine 7 sch_send good_peer] by simp
qed

text \<open>
  Claim C2 as it is written fails: a task that finds \<^verbatim>\<open>l.quit\<close> closed at line 99 is not
  in the branch of line 144, and emits nothing.
\<close>

theorem outcomes_per_task_counterexample:
  "\<not> recheck_abort sample_machine 7 sch_closed good_peer \<and>
   length (offered (trace (doHandshake sample_machine 7 sch_closed good_peer))) \<noteq> 1"
proof -
  have "\<not> recheck_abort sample_machine 7 sch_closed good_peer"
    by (simp add: recheck_abort_def task_run_def acts_one_two_def spawn_def sch_closed_def)
  moreover have "length (offered (trace (doHandshake sample_machine 7 sch_closed good_peer))) \<noteq> 1"
    by (simp add: closed_run)
  ultimately show ?thesis by simp
qed

text \<open>
  Claim C6. The calls of a task are, in this order and as far as it gets: \<^verbatim>\<open>io.ReadFull\<close>
  of \<^verbatim>\<open>ActOneSize\<close> bytes, \<^verbatim>\<open>RecvActOne\<close>, \<^verbatim>\<open>GenActTwo\<close>, \<^verbatim>\<open>Write\<close>, \<^verbatim>\<open>io.ReadFull\<close> of
  \<^verbatim>\<open>ActThreeSize\<close> bytes, \<^verbatim>\<open>RecvActThree\<close>. \<^verbatim>\<open>RecvActOne\<close> is given exactly the first
  \<^verbatim>\<open>ActOneSize\<close> bytes the peer sent, \<^verbatim>\<open>Write\<close> the bytes \<^verbatim>\<open>GenActTwo\<close> returned,
  \<^verbatim>\<open>RecvActThree\<close> the next \<^verbatim>\<open>ActThreeSize\<close> bytes. After the first call that returns an
  error \<open>e\<close>, the task closes the connection, calls \<^verbatim>\<open>rejectConn\<close> with \<open>e\<close>, and does
  nothing more than leave the \<^verbatim>\<open>select\<close> of \<^verbatim>\<open>rejectConn\<close> and release its token: this
  is the one outcome it emits, the connection is closed at the end, and the task is over
  as soon as that \<^verbatim>\<open>select\<close> is.
\<close>

theorem handshake_sequence:
  "prefix (steps (trace (doHandshake m k sch c)))
     [ReadFullOf (ActOneSize m), DoRecvActOne, DoGenActTwo, DoWrite,
      ReadFullOf (ActThreeSize m), DoRecvActThree] \<and>
   (\<forall>b r. EvRecvActOne b r \<in> set (trace (doHandshake m k sch c)) \<longrightarrow>
      EvReadFull (ActOneSize m) b None \<in> set (trace (doHandshake m k sch c)) \<and>
      b = take (ActOneSize m) (rx c) \<and> length b = ActOneSize m) \<and>
   (\<forall>a r. EvWrite a r \<in> set (trace (doHandshake m k sch c)) \<longrightarrow>
      EvGenActTwo a None \<in> set (trace (doHandshake m k sch c))) \<and>
   (\<forall>b r. EvRecvActThree b r \<in> set (trace (doHandshake m k sch c)) \<longrightarrow>
      EvReadFull (ActThreeSize m) b None \<in> set (trace (doHandshake m k sch c)) \<and>
      b = take (ActThreeSize m) (drop (ActOneSize m) (rx c)) \<and> length b = ActThreeSize m) \<and>
   (\<forall>e rest. after_failure (trace (doHandshake m k sch c)) = Some (e, rest) \<longrightarrow>
      take 2 rest = [EvClose, EvRejectConn (Some e)] \<and>
      set (drop 2 rest) \<subseteq> {EvSent (rejectConn_msg (Some e)), EvQuit, EvRelease} \<and>
      offered (trace (doHandshake m k sch c)) = [rejectConn_msg (Some e)] \<and>
      closed (t_conn (doHandshake m k sch c)) \<and>
      pc (doHandshake m k sch c) =
        (if delivery sch = None then Deliver (rejectConn_msg (Some e)) else Finished))"
  using hs_steps[of m k sch c] hs_act_one_bytes[of _ _ m k sch c]
    hs_act_two_bytes[of _ _ m k sch c] hs_act_three_bytes[of _ _ m k sch c]
    hs_failure[of m k sch c]
  by blast

theorem handshake_sequence_witness:
  "EvRecvActOne [1, 2] None \<in> set (trace (doHandshake sample_machine 7 sch_send good_peer)) \<and>
   EvWrite [9] None \<in> set (trace (doHandshake sample_machine 7 sch_send good_peer)) \<and>
   EvRecvActThree [3] None \<in> set (trace (doHandshake sample_machine 7 sch_send good_peer)) \<and>
   [1, 2] = take (ActOneSize sample_machine) (rx good_peer) \<and>
   [3] = take (ActThreeSize sample_machine) (drop (ActOneSize sample_machine) (rx good_peer)) \<and>
   after_failure (trace (doHandshake sample_machine 7 sch_quit silent_peer)) =
     Some (Err ''i/o timeout'',
           [EvClose, EvRejectConn (Some (Err ''i/o timeout'')), EvQuit, EvRelease]) \<and>
   offered (trace (doHandshake sample_machine 7 sch_quit silent_peer)) =
     [rejectConn_msg (Some (Err ''i/o timeout''))] \<and>
   closed (t_conn (doHandshake sample_machine 7 sch_quit silent_peer)) \<and>
   pc (doHandshake sample_machine 7 sch_quit silent_peer) = Finished"
  using handshake_sequence[of sample_machine 7 sch_send good_peer]
    handshake_sequence[of sample_machine 7 sch_quit silent_peer]
  by (simp add: good_run silent_run sample_sizes sample_rx take2)

text \<open>
  Claim C8, as amended. A task arms a read deadline only right before a read it makes:
  before the read of act one and before the read of act three, so never more than twice,
  and not at all on a path that ends before the read. A task that calls \<^verbatim>\<open>acceptConn\<close>
  has armed two, has cleared the deadline after the second read and before that call, and
  hands over a connection with no read deadline.
\<close>

theorem read_deadlines:
  "timings (trace (doHandshake m k sch c)) \<in>
     {[], [Arm, Read (ActOneSize m)], [Arm, Read (ActOneSize m), Arm, Read (ActThreeSize m)],
      [Arm, Read (ActOneSize m), Arm, Read (ActThreeSize m), Clear]} \<and>
   armed (trace (doHandshake m k sch c)) \<le> 2 \<and>
   (\<forall>cn. EvAcceptConn cn \<in> set (trace (doHandshake m k sch c)) \<longrightarrow>
      timings (before_accept (trace (doHandshake m k sch c))) =
        [Arm, Read (ActOneSize m), Arm, Read (ActThreeSize m), Clear] \<and>
      armed (trace (doHandshake m k sch c)) = 2 \<and>
      (\<exists>rc n. cn = Some (Conn rc n) \<and> read_deadline rc = ZeroTime))"
  using hs_timings[of m k sch c] hs_armed_le[of m k sch c] hs_secured[of _ m k sch c]
  by blast

theorem read_deadlines_witness:
  "EvAcceptConn (Some (Conn \<lparr>rx = [], rx_end = Err ''i/o timeout'', tx = [9], wr_err = None,
      read_deadline = ZeroTime, closed = False\<rparr> 3))
     \<in> set (trace (doHandshake sample_machine 7 sch_send good_peer)) \<and>
   timings (before_accept (trace (doHandshake sample_machine 7 sch_send good_peer))) =
     [Arm, Read 2, Arm, Read 1, Clear] \<and>
   armed (trace (doHandshake sample_machine 7 sch_send good_peer)) = 2"
  using read_deadlines[of sample_machine 7 sch_send good_peer]
  by (simp add: good_run sample_sizes before_accept_def armed_def)

text \<open>
  Claim C8 as it is written fails: a task whose peer sends nothing arms one deadline,
  not two.
\<close>

theorem read_deadlines_counterexample:
  "armed (trace (doHandshake sample_machine 7 sch_quit silent_peer)) \<noteq> 2"
  by (simp add: silent_run armed_def)

text \<open>
  Claim C10, as amended. A task that leaves at the check of line 99 or at the check of
  line 143 never calls \<^verbatim>\<open>Close\<close> on the raw connection, and neither does a task whose
  \<^verbatim>\<open>acceptConn\<close> ends by \<^verbatim>\<open>case <-l.quit\<close>: the connection is left as open as it was. A
  task whose \<^verbatim>\<open>rejectConn\<close> ends by \<^verbatim>\<open>case <-l.quit\<close> has closed the connection before it
  called \<^verbatim>\<open>rejectConn\<close>.
\<close>

theorem close_on_signal_exit:
  "(quit_at_precheck sch = Closed \<or> recheck_abort m k sch c \<longrightarrow>
      EvClose \<notin> set (trace (doHandshake m k sch c)) \<and>
      closed (t_conn (doHandshake m k sch c)) = closed c) \<and>
   (EvQuit \<in> set (trace (doHandshake m k sch c)) \<longrightarrow>
      (\<forall>cn. EvAcceptConn cn \<in> set (trace (doHandshake m k sch c)) \<longrightarrow>
         EvClose \<notin> set (trace (doHandshake m k sch c)) \<and>
         closed (t_conn (doHandshake m k sch c)) = closed c) \<and>
      (\<forall>e. EvRejectConn e \<in> set (trace (doHandshake m k sch c)) \<longrightarrow>
         EvClose \<in> set (takeWhile (\<lambda>x. x \<noteq> EvRejectConn e) (trace (doHandshake m k sch c))) \<and>
         closed (t_conn (doHandshake m k sch c))))"
  using hs_aborted[of sch m k c] hs_secured[of _ m k sch c] hs_rejected[of _ m k sch c]
  by blast

theorem close_on_signal_exit_witness:
  "quit_at_precheck sch_closed = Closed \<and>
   EvClose \<notin> set (trace (doHandshake sample_machine 7 sch_closed good_peer)) \<and>
   EvQuit \<in> set (trace (doHandshake sample_machine 7 sch_quit good_peer)) \<and>
   (\<exists>cn. EvAcceptConn cn \<in> set (trace (doHandshake sample_machine 7 sch_quit good_peer))) \<and>
   EvClose \<notin> set (trace (doHandshake sample_machine 7 sch_quit good_peer)) \<and>
   EvQuit \<in> set (trace (doHandshake sample_machine 7 sch_quit silent_peer)) \<and>
   EvRejectConn (Some (Err ''i/o timeout''))
     \<in> set (trace (doHandshake sample_machine 7 sch_quit silent_peer)) \<and>
   closed (t_conn (doHandshake sample_machine 7 sch_quit silent_peer))"
proof -
  have "quit_at_precheck sch_closed = Closed"
    by (simp add: sch_closed_def)
  then show ?thesis
    using close_on_signal_exit[of sch_closed sample_machine 7 good_peer]
      close_on_signal_exit[of sch_quit sample_machine 7 good_peer]
      close_on_signal_exit[of sch_quit sample_machine 7 silent_peer]
    by (simp add: good_quit_run silent_run)
qed

text \<open>
  Claim C10 as it is written fails: a task whose \<^verbatim>\<open>rejectConn\<close> ends by \<^verbatim>\<open>case <-l.quit\<close>
  has called \<^verbatim>\<open>Close\<close> on the raw connection.
\<close>

theorem close_on_signal_exit_counterexample:
  "EvQuit \<in> set (trace (doHandshake sample_machine 7 sch_quit silent_peer)) \<and>
   EvClose \<in> set (trace (doHandshake sample_machine 7 sch_quit silent_peer))"
  by (simp add: silent_run)

end
